theory Spec2Isabelle
  imports Complex_Main
begin

section \<open>The libraries' values\<close>

text \<open>
  \<^verbatim>\<open>std::getenv\<close> returns a \<^verbatim>\<open>char *\<close>: the null pointer for a variable that is not
  set. \<open>None\<close> is the null pointer.
\<close>

type_synonym cstr = "string option"

text \<open>
  A value of \<^verbatim>\<open>nlohmann::json\<close> (\<^verbatim>\<open>lib/json.hpp\<close>, the JSON library the program includes;
  its values and accessors are modelled on the library's documented behaviour). Signed
  and unsigned integers are one constructor (the program converts both to \<^verbatim>\<open>int\<close> in the
  same way); a floating-point number carries the number it stands for. An object is the
  list of its members, with unique keys in a parsed document; a lookup takes the first
  json_member of that key.
\<close>

datatype json =
    JNull
  | JBool bool
  | JInt int
  | JFloat rat
  | JString string
  | JArray "json list"
  | JObject "(string \<times> json) list"

text \<open>
  The exceptions that reach the \<^verbatim>\<open>catch (const std::exception &)\<close> of \<^verbatim>\<open>main\<close>: the three
  exception classes of the JSON library that the program can meet, with the library's
  numeric id, and the failure of the database driver, with its message.
\<close>

datatype exn =
    Json_parse_error nat
  | Json_type_error nat
  | Json_out_of_range nat
  | Pqxx_failure string

text \<open>Sequencing of two steps, the first of which may throw.\<close>

definition and_then :: "exn + 'a \<Rightarrow> ('a \<Rightarrow> exn + 'b) \<Rightarrow> exn + 'b" where
  "and_then m f = (case m of Inl e \<Rightarrow> Inl e | Inr x \<Rightarrow> f x)"

subsection \<open>Accessors of the JSON library\<close>

text \<open>
  \<^verbatim>\<open>operator[]\<close> with a string key on a value that is not \<^verbatim>\<open>const\<close> (the temporary that
  \<^verbatim>\<open>parse\<close> returns, and the local \<^verbatim>\<open>credentials\<close>): a null value becomes an empty object, a
  key that is absent is inserted with the value null, and any other kind of value throws
  type error 305. The insertion changes only a temporary or the local copy, so the
  model returns the value that the reference denotes.
\<close>

fun json_index :: "json \<Rightarrow> string \<Rightarrow> exn + json" where
  "json_index JNull key = Inr JNull"
| "json_index (JObject members) key =
     (case map_of members key of None \<Rightarrow> Inr JNull | Some v \<Rightarrow> Inr v)"
| "json_index _ key = Inl (Json_type_error 305)"

text \<open>
  \<^verbatim>\<open>at\<close> with a string key on a \<^verbatim>\<open>const\<close> value: out-of-range error 403 for a key that is
  absent, type error 304 on a value that is not an object.
\<close>

fun json_at :: "json \<Rightarrow> string \<Rightarrow> exn + json" where
  "json_at (JObject members) key =
     (case map_of members key of None \<Rightarrow> Inl (Json_out_of_range 403) | Some v \<Rightarrow> Inr v)"
| "json_at _ key = Inl (Json_type_error 304)"

text \<open>
  Conversion to \<^verbatim>\<open>std::string\<close> (by \<^verbatim>\<open>get_to\<close>, and by the implicit conversion in an
  assignment): type error 302 unless the value is a string.
\<close>

fun get_to_string :: "json \<Rightarrow> exn + string" where
  "get_to_string (JString s) = Inr s"
| "get_to_string _ = Inl (Json_type_error 302)"

text \<open>
  \<^verbatim>\<open>static_cast<int>\<close> of a 64-bit integer keeps the low 32 bits, read as a signed
  number.
\<close>

definition int_cast :: "int \<Rightarrow> int" where
  "int_cast n = (n + 2147483648) mod 4294967296 - 2147483648"

text \<open>Rounding towards zero, as the conversion of a floating-point number to an integer does.\<close>

definition trunc :: "rat \<Rightarrow> int" where
  "trunc q = (if 0 \<le> q then \<lfloor>q\<rfloor> else - \<lfloor>- q\<rfloor>)"

text \<open>
  Conversion to \<^verbatim>\<open>int\<close> by \<^verbatim>\<open>get_to\<close>. For an arithmetic target type that is not one of
  the library's own number types, the library's \<^verbatim>\<open>from_json\<close> switches on the kind of the
  value: an unsigned integer, a signed integer, a floating-point number and a boolean are
  each converted with \<^verbatim>\<open>static_cast<int>\<close>, and every other kind throws type error 302
  (\<^verbatim>\<open>type must be number\<close>). (The cast of a floating-point number outside the range of
  \<^verbatim>\<open>int\<close> is undefined in C++; the model keeps the low 32 bits there, and no statement
  below is about that case.)
\<close>

fun get_to_int :: "json \<Rightarrow> exn + int" where
  "get_to_int (JInt n) = Inr (int_cast n)"
| "get_to_int (JFloat q) = Inr (int_cast (trunc q))"
| "get_to_int (JBool b) = Inr (if b then 1 else 0)"
| "get_to_int _ = Inl (Json_type_error 302)"

subsection \<open>Decimal output\<close>

text \<open>\<^verbatim>\<open>ss << port\<close>: the decimal digits of an \<^verbatim>\<open>int\<close>, with a minus sign when it is negative.\<close>

definition digit :: "nat \<Rightarrow> char" where
  "digit d = ''0123456789'' ! d"

function dec_nat :: "nat \<Rightarrow> string" where
  "dec_nat n = (if n < 10 then [digit n] else dec_nat (n div 10) @ [digit (n mod 10)])"
  by pat_completeness auto
termination
  by (relation "measure id") auto

declare dec_nat.simps [simp del]

definition dec_int :: "int \<Rightarrow> string" where
  "dec_int i = (if i < 0 then CHR ''-'' # dec_nat (nat (- i)) else dec_nat (nat i))"

section \<open>The Vault client\<close>

text \<open>
  Modelled from the spec: the types of \<^verbatim>\<open>VaultClient.h\<close>, which is not in the sources. The
  configuration is what \<^verbatim>\<open>Vault::ConfigBuilder().withHost(...).withTlsEnabled(...).build()\<close>
  was given; the strategy holds the two identifiers; the client's constructor runs the
  strategy's login (the spec's one round trip to the login endpoint), and \<open>authenticated\<close>
  is what \<^verbatim>\<open>is_authenticated()\<close> answers afterwards.

  \<^verbatim>\<open>Vault::RoleId\<close> and \<^verbatim>\<open>Vault::SecretId\<close> wrap a \<^verbatim>\<open>std::string\<close>, which
  \<^verbatim>\<open>Vault::RoleId{roleId}\<close> builds from the \<^verbatim>\<open>char *\<close>. From a null pointer no string can be
  built: C++ leaves the behaviour undefined, and the standard library throws
  \<^verbatim>\<open>std::logic_error\<close>. \<^verbatim>\<open>getVaultClient\<close> is called outside the \<^verbatim>\<open>try\<close> block of \<^verbatim>\<open>main\<close>, so
  nothing catches it: the process is ended by \<^verbatim>\<open>std::terminate\<close>, with nothing on standard
  output, and its status is the one of an abort, 134.
\<close>

record Vault_Config =
  vault_host :: string
  tls_enabled :: bool

record AppRoleStrategy =
  roleId :: string
  secretId :: string

record Client =
  client_config :: Vault_Config
  authenticated :: bool

section \<open>The world outside the program\<close>

text \<open>
  What the program reads from its surroundings, as parameters: the environment, the
  files (\<open>None\<close> for a file that cannot be opened), the JSON parser of the library, the
  broker's answer to a login and to a request for credentials (\<open>None\<close> for an absent
  response), what the database driver does with a connection string (it throws, or the
  connection answers \<^verbatim>\<open>is_open()\<close>), and the message \<^verbatim>\<open>what()\<close> of each exception.
\<close>

record world =
  getenv :: "string \<Rightarrow> cstr"
  file_contents :: "string \<Rightarrow> string option"
  json_parse :: "string \<Rightarrow> exn + json"
  vault_login :: "Vault_Config \<Rightarrow> AppRoleStrategy \<Rightarrow> bool"
  generateCredentials :: "Client \<Rightarrow> string \<Rightarrow> string option"
  pqxx_connect :: "string \<Rightarrow> exn + bool"
  what :: "exn \<Rightarrow> string"

text \<open>What the program does to its surroundings, in the order in which it does it.\<close>

datatype event =
    Getenv string
  | Print string
  | Construct_strategy cstr cstr
  | Vault_login Vault_Config AppRoleStrategy
  | Read_file string
  | Generate_credentials string
  | Db_connect string

text \<open>
  A function that may end the process instead of returning: with \<^verbatim>\<open>exit\<close>, or by an
  exception that nothing catches.
\<close>

datatype 'a proc = Exits int | Aborts | Returns 'a

definition abort_status :: int where
  "abort_status = 134"

section \<open>The program\<close>

record DatabaseConfig =
  port :: int
  host :: string
  database :: string
  secretRole :: string
  username :: string
  password :: string

text \<open>
  \<^verbatim>\<open>withSecrets\<close> is a json_member function that assigns to fields of \<^verbatim>\<open>*this\<close> and may throw
  between two assignments: the model returns what it did outside, the object as the call
  left it, and the exception or the copy of \<^verbatim>\<open>*this\<close> that the call returns.
\<close>

definition withSecrets ::
  "world \<Rightarrow> Client \<Rightarrow> DatabaseConfig \<Rightarrow> event list \<times> DatabaseConfig \<times> (exn + DatabaseConfig)"
where
  "withSecrets w vaultClient this =
     (let secretResponse = generateCredentials w vaultClient (secretRole this);
          t = [Generate_credentials (secretRole this)]
      in case secretResponse of
           None \<Rightarrow> (t, this, Inr this)
         | Some body \<Rightarrow>
             (case and_then (json_parse w body) (\<lambda>doc. json_index doc ''data'') of
                Inl e \<Rightarrow> (t, this, Inl e)
              | Inr credentials \<Rightarrow>
                  (case and_then (json_index credentials ''username'') get_to_string of
                     Inl e \<Rightarrow> (t, this, Inl e)
                   | Inr u \<Rightarrow>
                       (let this1 = this\<lparr>username := u\<rparr>
                        in case and_then (json_index credentials ''password'') get_to_string of
                             Inl e \<Rightarrow> (t, this1, Inl e)
                           | Inr p \<Rightarrow>
                               (let this2 = this1\<lparr>password := p\<rparr>
                                in (t, this2, Inr this2))))))"

text \<open>
  \<^verbatim>\<open>connectionString\<close> is a json_member function too, and not \<^verbatim>\<open>const\<close>: the model returns
  the string and the object as the call left it.
\<close>

definition connectionString :: "DatabaseConfig \<Rightarrow> string \<times> DatabaseConfig" where
  "connectionString this =
     (''host='' @ host this @ '' '' @
      ''port='' @ dec_int (port this) @ '' '' @
      ''user='' @ username this @ '' '' @
      ''password='' @ password this @ '' '' @
      ''dbname='' @ database this,
      this)"

text \<open>
  \<^verbatim>\<open>from_json\<close> fills the four fields in the order of the source; the first accessor that
  throws ends it.
\<close>

definition from_json :: "json \<Rightarrow> DatabaseConfig \<Rightarrow> exn + DatabaseConfig" where
  "from_json j databaseConfig =
     and_then (and_then (json_at j ''port'') get_to_int) (\<lambda>p.
     and_then (and_then (json_at j ''host'') get_to_string) (\<lambda>h.
     and_then (and_then (json_at j ''database'') get_to_string) (\<lambda>d.
     and_then (and_then (json_at j ''secret_role'') get_to_string) (\<lambda>r.
       Inr (databaseConfig\<lparr>port := p, host := h, database := d, secretRole := r\<rparr>)))))"

text \<open>
  The conversion of a JSON value to a \<^verbatim>\<open>DatabaseConfig\<close> (the \<^verbatim>\<open>return\<close> of
  \<^verbatim>\<open>getDatabaseConfiguration\<close>) hands \<^verbatim>\<open>from_json\<close> a value-initialised object: \<^verbatim>\<open>port\<close> zero
  and every string empty.
\<close>

definition value_initialised :: DatabaseConfig where
  "value_initialised =
     \<lparr>port = 0, host = [], database = [], secretRole = [], username = [], password = []\<rparr>"

text \<open>
  A stream on a file that cannot be opened yields no character: \<open>raw\<close> is then the empty
  string, which goes to the parser like any other text.
\<close>

definition getDatabaseConfiguration ::
  "world \<Rightarrow> string \<Rightarrow> event list \<times> (exn + DatabaseConfig)"
where
  "getDatabaseConfiguration w path =
     (let raw = (case file_contents w path of None \<Rightarrow> [] | Some s \<Rightarrow> s)
      in ([Read_file path],
          and_then (and_then (json_parse w raw) (\<lambda>doc. json_index doc ''database''))
            (\<lambda>j. from_json j value_initialised)))"

definition gate_message :: string where
  "gate_message = ''APPROLE_ROLE_ID and APPROLE_SECRET_ID environment variables must be set''"

definition getVaultClient :: "world \<Rightarrow> event list \<times> Client proc" where
  "getVaultClient w =
     (let role = getenv w ''APPROLE_ROLE_ID'';
          secret = getenv w ''APPROLE_SECRET_ID'';
          t = [Getenv ''APPROLE_ROLE_ID'', Getenv ''APPROLE_SECRET_ID'']
      in if role = None \<and> secret = None
         then (t @ [Print gate_message], Exits (- 1))
         else
           (case role of
              None \<Rightarrow> (t @ [Construct_strategy role secret], Aborts)
            | Some r \<Rightarrow>
                (case secret of
                   None \<Rightarrow> (t @ [Construct_strategy role secret], Aborts)
                 | Some s \<Rightarrow>
                     (let appRoleStrategy = \<lparr>roleId = r, secretId = s\<rparr>;
                          config =
                            \<lparr>vault_host = ''dynamic-secrets-vault'', tls_enabled = False\<rparr>
                      in (t @ [Construct_strategy role secret,
                               Vault_login config appRoleStrategy],
                          Returns \<lparr>client_config = config,
                                   authenticated = vault_login w config appRoleStrategy\<rparr>)))))"

text \<open>
  The body of the \<^verbatim>\<open>try\<close> block of \<^verbatim>\<open>main\<close>: what it did outside, and the exception that
  left it, if one did.
\<close>

definition try_block :: "world \<Rightarrow> string \<Rightarrow> Client \<Rightarrow> event list \<times> (exn + unit)" where
  "try_block w configPath vaultClient =
     (case getDatabaseConfiguration w configPath of
        (t1, Inl e) \<Rightarrow> (t1, Inl e)
      | (t1, Inr loaded) \<Rightarrow>
          (case withSecrets w vaultClient loaded of
             (t2, _, Inl e) \<Rightarrow> (t1 @ t2, Inl e)
           | (t2, _, Inr databaseConfig) \<Rightarrow>
               (let s = fst (connectionString databaseConfig);
                    t3 = [Db_connect s]
                in case pqxx_connect w s of
                     Inl e \<Rightarrow> (t1 @ t2 @ t3, Inl e)
                   | Inr is_open \<Rightarrow>
                       (t1 @ t2 @ t3 @
                          [Print (if is_open then ''Connected'' else ''Could not connect'')],
                        Inr ()))))"

text \<open>
  \<^verbatim>\<open>main\<close>: the events of the run, and the status with which the process ends: the
  argument of \<^verbatim>\<open>exit\<close>, the status of an abort, or 0 when \<^verbatim>\<open>main\<close> ends without a
  \<^verbatim>\<open>return\<close>.
\<close>

definition main :: "world \<Rightarrow> event list \<times> int" where
  "main w =
     (let configPath = ''config.json''
      in case getVaultClient w of
           (t0, Exits code) \<Rightarrow> (t0, code)
         | (t0, Aborts) \<Rightarrow> (t0, abort_status)
         | (t0, Returns vaultClient) \<Rightarrow>
             if authenticated vaultClient
             then (case try_block w configPath vaultClient of
                     (t, Inr _) \<Rightarrow> (t0 @ t, 0)
                   | (t, Inl e) \<Rightarrow> (t0 @ t @ [Print (what w e)], 0))
             else (t0 @ [Print ''Unable to authenticate to Vault''], 0))"

section \<open>Vocabulary of the statements\<close>

text \<open>The lines on standard output.\<close>

definition stdout :: "event list \<Rightarrow> string list" where
  "stdout t = concat (map (\<lambda>ev. case ev of Print s \<Rightarrow> [s] | _ \<Rightarrow> []) t)"

text \<open>
  The events of the Secrets Client Bootstrap (reading the environment, building the
  strategy, the login) and of the Config Loader (reading the file), and the place of the
  first event of a kind in a run.
\<close>

definition is_bootstrap :: "event \<Rightarrow> bool" where
  "is_bootstrap ev =
     (case ev of Getenv _ \<Rightarrow> True | Construct_strategy _ _ \<Rightarrow> True
               | Vault_login _ _ \<Rightarrow> True | _ \<Rightarrow> False)"


definition is_config_load :: "event \<Rightarrow> bool" where
  "is_config_load ev = (case ev of Read_file _ \<Rightarrow> True | _ \<Rightarrow> False)"

fun position :: "(event \<Rightarrow> bool) \<Rightarrow> event list \<Rightarrow> nat option" where
  "position P [] = None"
| "position P (ev # t) = (if P ev then Some 0 else map_option Suc (position P t))"





text \<open>The member of an object under a key; no other kind of value has members.\<close>

definition json_member :: "json \<Rightarrow> string \<Rightarrow> json option" where
  "json_member j key = (case j of JObject members \<Rightarrow> map_of members key | _ \<Rightarrow> None)"

text \<open>
  A \<open>database\<close> object that \<^verbatim>\<open>from_json\<close> can load: \<open>port\<close> is a number or a boolean, and \<open>host\<close>,
  \<open>database\<close> and \<open>secret_role\<close> are strings.
\<close>

definition number_or_boolean :: "json \<Rightarrow> bool" where
  "number_or_boolean v =
     (case v of JInt _ \<Rightarrow> True | JFloat _ \<Rightarrow> True | JBool _ \<Rightarrow> True | _ \<Rightarrow> False)"

definition has_string :: "json \<Rightarrow> string \<Rightarrow> bool" where
  "has_string j key = (case json_member j key of Some (JString _) \<Rightarrow> True | _ \<Rightarrow> False)"

definition loadable :: "json \<Rightarrow> bool" where
  "loadable j =
     ((case json_member j ''port'' of Some v \<Rightarrow> number_or_boolean v | None \<Rightarrow> False) \<and>
      has_string j ''host'' \<and> has_string j ''database'' \<and> has_string j ''secret_role'')"

text \<open>
  An input of configuration loading that is bad: the file is missing, its text does not
  parse, or the document has no loadable \<open>database\<close> object.
\<close>

definition raw_text :: "world \<Rightarrow> string \<Rightarrow> string" where
  "raw_text w path = (case file_contents w path of None \<Rightarrow> [] | Some s \<Rightarrow> s)"

definition bad_config :: "world \<Rightarrow> string \<Rightarrow> bool" where
  "bad_config w path =
     (file_contents w path = None \<or>
      (case json_parse w (raw_text w path) of
         Inl _ \<Rightarrow> True
       | Inr doc \<Rightarrow> (case json_member doc ''database'' of None \<Rightarrow> True | Some db \<Rightarrow> \<not> loadable db)))"

text \<open>
  A broker response that carries credentials: the document has a \<open>data\<close> object whose
  \<open>username\<close> and \<open>password\<close> are strings.
\<close>

definition has_credentials :: "json \<Rightarrow> bool" where
  "has_credentials doc =
     (case json_member doc ''data'' of
        None \<Rightarrow> False
      | Some dat \<Rightarrow> has_string dat ''username'' \<and> has_string dat ''password'')"

text \<open>
  The state of the run after the gate of \<^verbatim>\<open>getVaultClient\<close>. \<open>strategy_of\<close>, \<open>login_ok\<close>,
  \<open>client_of\<close> and \<open>bootstrap_events\<close> are the strategy, the answer of the login, the client
  and the events of \<^verbatim>\<open>getVaultClient\<close> when both variables are set; the statements use them
  only then.
\<close>

definition both_unset :: "world \<Rightarrow> bool" where
  "both_unset w =
     (getenv w ''APPROLE_ROLE_ID'' = None \<and> getenv w ''APPROLE_SECRET_ID'' = None)"

definition both_set :: "world \<Rightarrow> bool" where
  "both_set w =
     (getenv w ''APPROLE_ROLE_ID'' \<noteq> None \<and> getenv w ''APPROLE_SECRET_ID'' \<noteq> None)"

definition value_or_empty :: "cstr \<Rightarrow> string" where
  "value_or_empty p = (case p of None \<Rightarrow> [] | Some s \<Rightarrow> s)"

definition vault_config :: Vault_Config where
  "vault_config = \<lparr>vault_host = ''dynamic-secrets-vault'', tls_enabled = False\<rparr>"

definition strategy_of :: "world \<Rightarrow> AppRoleStrategy" where
  "strategy_of w =
     \<lparr>roleId = value_or_empty (getenv w ''APPROLE_ROLE_ID''),
      secretId = value_or_empty (getenv w ''APPROLE_SECRET_ID'')\<rparr>"

definition login_ok :: "world \<Rightarrow> bool" where
  "login_ok w = vault_login w vault_config (strategy_of w)"

definition client_of :: "world \<Rightarrow> Client" where
  "client_of w = \<lparr>client_config = vault_config, authenticated = login_ok w\<rparr>"

definition bootstrap_events :: "world \<Rightarrow> event list" where
  "bootstrap_events w =
     [Getenv ''APPROLE_ROLE_ID'', Getenv ''APPROLE_SECRET_ID'',
      Construct_strategy (getenv w ''APPROLE_ROLE_ID'') (getenv w ''APPROLE_SECRET_ID''),
      Vault_login vault_config (strategy_of w)]"

section \<open>A world to run the program in\<close>

text \<open>
  The end-to-end scenario: both identifiers set, a configuration file, a broker that
  accepts the login and issues credentials for the role, and a database that accepts the
  connection string built from them. The parser of this world knows the two texts of the
  scenario, and five more that the variations below use, and rejects every other text,
  the empty one included.
\<close>

definition config_text :: string where
  \<open>config_text =
     ''{"database":{"port":5432,"host":"db","database":"app","secret_role":"app-role"}}''\<close>

definition config_json :: json where
  "config_json =
     JObject [(''database'',
       JObject [(''port'', JInt 5432), (''host'', JString ''db''),
                (''database'', JString ''app''), (''secret_role'', JString ''app-role'')])]"

definition credentials_text :: string where
  \<open>credentials_text = ''{"data":{"username":"u1","password":"p1"}}''\<close>

definition credentials_json :: json where
  "credentials_json =
     JObject [(''data'', JObject [(''username'', JString ''u1''), (''password'', JString ''p1'')])]"

definition boolean_port_text :: string where
  \<open>boolean_port_text =
     ''{"database":{"port":true,"host":"db","database":"app","secret_role":"app-role"}}''\<close>

definition boolean_port_json :: json where
  "boolean_port_json =
     JObject [(''database'',
       JObject [(''port'', JBool True), (''host'', JString ''db''),
                (''database'', JString ''app''), (''secret_role'', JString ''app-role'')])]"

definition float_port_text :: string where
  \<open>float_port_text =
     ''{"database":{"port":5432.5,"host":"db","database":"app","secret_role":"app-role"}}''\<close>

definition float_port_json :: json where
  "float_port_json =
     JObject [(''database'',
       JObject [(''port'', JFloat (10865 / 2)), (''host'', JString ''db''),
                (''database'', JString ''app''), (''secret_role'', JString ''app-role'')])]"

definition large_port_text :: string where
  \<open>large_port_text =
     ''{"database":{"port":4294972728,"host":"db","database":"app","secret_role":"app-role"}}''\<close>

definition large_port_json :: json where
  "large_port_json =
     JObject [(''database'',
       JObject [(''port'', JInt 4294972728), (''host'', JString ''db''),
                (''database'', JString ''app''), (''secret_role'', JString ''app-role'')])]"

definition no_host_text :: string where
  \<open>no_host_text = ''{"database":{"port":5432,"database":"app","secret_role":"app-role"}}''\<close>

definition no_host_json :: json where
  "no_host_json =
     JObject [(''database'',
       JObject [(''port'', JInt 5432),
                (''database'', JString ''app''), (''secret_role'', JString ''app-role'')])]"

definition no_password_text :: string where
  \<open>no_password_text = ''{"data":{"username":"u1"}}''\<close>

definition no_password_json :: json where
  "no_password_json = JObject [(''data'', JObject [(''username'', JString ''u1'')])]"

definition scenario_parse :: "string \<Rightarrow> exn + json" where
  "scenario_parse s =
     (if s = config_text then Inr config_json
      else if s = credentials_text then Inr credentials_json
      else if s = boolean_port_text then Inr boolean_port_json
      else if s = float_port_text then Inr float_port_json
      else if s = large_port_text then Inr large_port_json
      else if s = no_host_text then Inr no_host_json
      else if s = no_password_text then Inr no_password_json
      else Inl (Json_parse_error 101))"

definition scenario_what :: "exn \<Rightarrow> string" where
  "scenario_what e =
     (case e of
        Json_parse_error n \<Rightarrow> ''parse error''
      | Json_type_error n \<Rightarrow> ''type error''
      | Json_out_of_range n \<Rightarrow> ''out of range''
      | Pqxx_failure msg \<Rightarrow> msg)"

definition scenario :: world where
  "scenario =
     \<lparr>getenv = (\<lambda>name. if name = ''APPROLE_ROLE_ID'' then Some ''role-1''
                       else if name = ''APPROLE_SECRET_ID'' then Some ''secret-1''
                       else None),
      file_contents = (\<lambda>path. if path = ''config.json'' then Some config_text else None),
      json_parse = scenario_parse,
      vault_login = (\<lambda>config strategy. True),
      generateCredentials =
        (\<lambda>client role. if role = ''app-role'' then Some credentials_text else None),
      pqxx_connect =
        (\<lambda>s. if s = ''host=db port=5432 user=u1 password=p1 dbname=app'' then Inr True
             else Inl (Pqxx_failure ''connection refused'')),
      what = scenario_what\<rparr>"



section \<open>Properties of the accessors\<close>

lemma and_then_Inl [simp]: "and_then (Inl e) f = Inl e"
  by (simp add: and_then_def)

lemma and_then_Inr [simp]: "and_then (Inr x) f = f x"
  by (simp add: and_then_def)

lemma and_then_Inr_iff: "and_then m f = Inr y \<longleftrightarrow> (\<exists>x. m = Inr x \<and> f x = Inr y)"
  by (cases m) simp_all

lemma get_to_string_iff: "get_to_string v = Inr s \<longleftrightarrow> v = JString s"
  by (cases v) auto

lemma get_to_int_iff: "(\<exists>p. get_to_int v = Inr p) \<longleftrightarrow> number_or_boolean v"
  by (cases v) (auto simp: number_or_boolean_def)

lemma json_at_iff: "json_at j key = Inr v \<longleftrightarrow> json_member j key = Some v"
  by (cases j) (auto simp: json_member_def split: option.splits)

lemma json_index_member: "json_member j key = Some v \<Longrightarrow> json_index j key = Inr v"
  by (cases j) (auto simp: json_member_def)

lemma index_string_iff:
  "and_then (json_index j key) get_to_string = Inr s \<longleftrightarrow> json_member j key = Some (JString s)"
  by (cases j) (auto simp: json_member_def get_to_string_iff split: option.splits)

lemma has_string_iff: "has_string j key \<longleftrightarrow> (\<exists>s. json_member j key = Some (JString s))"
  by (auto simp: has_string_def split: option.splits json.splits)

lemma from_json_iff:
  "from_json j c = Inr c' \<longleftrightarrow>
     (\<exists>v p h d r. json_member j ''port'' = Some v \<and> get_to_int v = Inr p \<and>
        json_member j ''host'' = Some (JString h) \<and> json_member j ''database'' = Some (JString d) \<and>
        json_member j ''secret_role'' = Some (JString r) \<and>
        c' = c\<lparr>port := p, host := h, database := d, secretRole := r\<rparr>)"
  unfolding from_json_def
  by (auto simp: and_then_Inr_iff json_at_iff get_to_string_iff)

lemma from_json_loadable: "(\<exists>c'. from_json j c = Inr c') \<longleftrightarrow> loadable j"
  unfolding from_json_iff loadable_def has_string_iff
  by (auto simp: get_to_int_iff[symmetric] split: option.splits)


section \<open>Decimal numerals\<close>















section \<open>The paths through the program\<close>

lemma getVaultClient_gate:
  "both_unset w \<Longrightarrow>
   getVaultClient w =
     ([Getenv ''APPROLE_ROLE_ID'', Getenv ''APPROLE_SECRET_ID'', Print gate_message],
      Exits (- 1))"
  by (simp add: getVaultClient_def both_unset_def)

lemma getVaultClient_pass:
  "both_set w \<Longrightarrow> getVaultClient w = (bootstrap_events w, Returns (client_of w))"
  by (auto simp: getVaultClient_def both_set_def bootstrap_events_def client_of_def
      login_ok_def strategy_of_def value_or_empty_def vault_config_def Let_def)

lemma getVaultClient_one_null:
  "\<not> both_unset w \<Longrightarrow> \<not> both_set w \<Longrightarrow>
   getVaultClient w =
     ([Getenv ''APPROLE_ROLE_ID'', Getenv ''APPROLE_SECRET_ID'',
       Construct_strategy (getenv w ''APPROLE_ROLE_ID'') (getenv w ''APPROLE_SECRET_ID'')],
      Aborts)"
  by (auto simp: getVaultClient_def both_set_def both_unset_def Let_def split: option.splits)

lemma main_one_null:
  "\<not> both_unset w \<Longrightarrow> \<not> both_set w \<Longrightarrow>
   main w =
     ([Getenv ''APPROLE_ROLE_ID'', Getenv ''APPROLE_SECRET_ID'',
       Construct_strategy (getenv w ''APPROLE_ROLE_ID'') (getenv w ''APPROLE_SECRET_ID'')],
      abort_status)"
  by (simp add: main_def getVaultClient_one_null)

lemma both_set_not_unset: "both_set w \<Longrightarrow> \<not> both_unset w"
  by (auto simp: both_set_def both_unset_def)

lemma main_gate:
  "both_unset w \<Longrightarrow>
   main w =
     ([Getenv ''APPROLE_ROLE_ID'', Getenv ''APPROLE_SECRET_ID'', Print gate_message], - 1)"
  by (simp add: main_def getVaultClient_gate)

lemma main_unauthenticated:
  "both_set w \<Longrightarrow> \<not> login_ok w \<Longrightarrow>
   main w = (bootstrap_events w @ [Print ''Unable to authenticate to Vault''], 0)"
  by (simp add: main_def getVaultClient_pass client_of_def)

lemma main_caught:
  "both_set w \<Longrightarrow> login_ok w \<Longrightarrow>
   try_block w ''config.json'' (client_of w) = (t, Inl e) \<Longrightarrow>
   main w = (bootstrap_events w @ t @ [Print (what w e)], 0)"
  by (simp add: main_def getVaultClient_pass client_of_def)

lemma main_completed:
  "both_set w \<Longrightarrow> login_ok w \<Longrightarrow>
   try_block w ''config.json'' (client_of w) = (t, Inr u) \<Longrightarrow>
   main w = (bootstrap_events w @ t, 0)"
  by (simp add: main_def getVaultClient_pass client_of_def)

lemma fst_getDatabaseConfiguration: "fst (getDatabaseConfiguration w path) = [Read_file path]"
  by (simp add: getDatabaseConfiguration_def Let_def)

lemma fst_withSecrets: "fst (withSecrets w c cfg) = [Generate_credentials (secretRole cfg)]"
  by (simp add: withSecrets_def Let_def split: option.splits sum.splits)

lemma try_block_load_raises:
  "snd (getDatabaseConfiguration w path) = Inl e \<Longrightarrow>
   try_block w path c = ([Read_file path], Inl e)"
  using fst_getDatabaseConfiguration [of w path]
  by (cases "getDatabaseConfiguration w path") (simp add: try_block_def)

lemma try_block_enrichment_raises:
  "snd (getDatabaseConfiguration w path) = Inr loaded \<Longrightarrow>
   snd (snd (withSecrets w c loaded)) = Inl e \<Longrightarrow>
   try_block w path c = ([Read_file path, Generate_credentials (secretRole loaded)], Inl e)"
  using fst_getDatabaseConfiguration [of w path] fst_withSecrets [of w c loaded]
  by (cases "getDatabaseConfiguration w path"; cases "withSecrets w c loaded")
     (simp add: try_block_def)

lemma try_block_connect:
  "snd (getDatabaseConfiguration w path) = Inr loaded \<Longrightarrow>
   snd (snd (withSecrets w c loaded)) = Inr cfg \<Longrightarrow>
   try_block w path c =
     (case pqxx_connect w (fst (connectionString cfg)) of
        Inl e \<Rightarrow>
          ([Read_file path, Generate_credentials (secretRole loaded),
            Db_connect (fst (connectionString cfg))], Inl e)
      | Inr is_open \<Rightarrow>
          ([Read_file path, Generate_credentials (secretRole loaded),
            Db_connect (fst (connectionString cfg)),
            Print (if is_open then ''Connected'' else ''Could not connect'')], Inr ()))"
  using fst_getDatabaseConfiguration [of w path] fst_withSecrets [of w c loaded]
  by (cases "getDatabaseConfiguration w path"; cases "withSecrets w c loaded")
     (simp add: try_block_def Let_def split: sum.splits)


lemma try_block_cases:
  obtains
    (load) e where "try_block w path c = ([Read_file path], Inl e)"
  | (enrich) r e where "try_block w path c = ([Read_file path, Generate_credentials r], Inl e)"
  | (connect) r s e where
      "try_block w path c = ([Read_file path, Generate_credentials r, Db_connect s], Inl e)"
  | (answered) r s is_open where
      "try_block w path c =
         ([Read_file path, Generate_credentials r, Db_connect s,
           Print (if is_open then ''Connected'' else ''Could not connect'')], Inr ())"
proof (cases "snd (getDatabaseConfiguration w path)")
  case (Inl e)
  then show ?thesis using load try_block_load_raises by blast
next
  case loaded: (Inr loaded)
  show ?thesis
  proof (cases "snd (snd (withSecrets w c loaded))")
    case (Inl e)
    then show ?thesis using enrich try_block_enrichment_raises [OF loaded] by blast
  next
    case (Inr cfg)
    show ?thesis
    proof (cases "pqxx_connect w (fst (connectionString cfg))")
      case (Inl e)
      then show ?thesis using connect try_block_connect [OF loaded Inr] by simp
    next
      case is_open: (Inr is_open)
      then show ?thesis using answered try_block_connect [OF loaded Inr] by simp
    qed
  qed
qed

lemma stdout_simps [simp]:
  "stdout [] = []"
  "stdout (Print s # t) = s # stdout t"
  "stdout (Getenv n # t) = stdout t"
  "stdout (Construct_strategy a b # t) = stdout t"
  "stdout (Vault_login c st # t) = stdout t"
  "stdout (Read_file p # t) = stdout t"
  "stdout (Generate_credentials r # t) = stdout t"
  "stdout (Db_connect s # t) = stdout t"
  by (simp_all add: stdout_def)

lemma stdout_append [simp]: "stdout (t @ t') = stdout t @ stdout t'"
  by (simp add: stdout_def)

lemma stdout_bootstrap [simp]: "stdout (bootstrap_events w) = []"
  by (simp add: bootstrap_events_def)

lemma getDatabaseConfiguration_Inr_iff:
  "snd (getDatabaseConfiguration w path) = Inr cfg \<longleftrightarrow>
     (\<exists>doc db. json_parse w (raw_text w path) = Inr doc \<and> json_member doc ''database'' = Some db \<and>
        from_json db value_initialised = Inr cfg)"
proof
  assume "snd (getDatabaseConfiguration w path) = Inr cfg"
  then obtain doc j where doc: "json_parse w (raw_text w path) = Inr doc"
    and j: "json_index doc ''database'' = Inr j"
    and cfg: "from_json j value_initialised = Inr cfg"
    by (auto simp: getDatabaseConfiguration_def raw_text_def and_then_Inr_iff)
  from cfg obtain v where "json_member j ''port'' = Some v"
    by (auto simp: from_json_iff)
  then have "j \<noteq> JNull"
    by (auto simp: json_member_def)
  with j have "json_member doc ''database'' = Some j"
    by (cases doc) (auto simp: json_member_def split: option.splits)
  with doc cfg show "\<exists>doc db. json_parse w (raw_text w path) = Inr doc \<and>
      json_member doc ''database'' = Some db \<and> from_json db value_initialised = Inr cfg"
    by blast
next
  assume "\<exists>doc db. json_parse w (raw_text w path) = Inr doc \<and> json_member doc ''database'' = Some db \<and>
      from_json db value_initialised = Inr cfg"
  then show "snd (getDatabaseConfiguration w path) = Inr cfg"
    by (auto simp: getDatabaseConfiguration_def raw_text_def json_index_member)
qed

lemma bad_config_raises:
  assumes empty: "json_parse w [] = Inl e0" and bad: "bad_config w path"
  shows "\<exists>e. snd (getDatabaseConfiguration w path) = Inl e"
proof (cases "snd (getDatabaseConfiguration w path)")
  case (Inl e)
  then show ?thesis by blast
next
  case (Inr cfg)
  then obtain doc db where doc: "json_parse w (raw_text w path) = Inr doc"
    and db: "json_member doc ''database'' = Some db"
    and cfg: "from_json db value_initialised = Inr cfg"
    by (auto simp: getDatabaseConfiguration_Inr_iff)
  from cfg have "loadable db"
    using from_json_loadable by blast
  with doc db bad have "file_contents w path = None"
    by (simp add: bad_config_def)
  with doc empty show ?thesis
    by (simp add: raw_text_def)
qed

lemma withSecrets_Inr_iff:
  assumes "generateCredentials w c (secretRole cfg) = Some body"
  shows "snd (snd (withSecrets w c cfg)) = Inr ret \<longleftrightarrow>
     (\<exists>doc dat u pw. json_parse w body = Inr doc \<and> json_member doc ''data'' = Some dat \<and>
        json_member dat ''username'' = Some (JString u) \<and>
        json_member dat ''password'' = Some (JString pw) \<and>
        ret = cfg\<lparr>username := u, password := pw\<rparr>)"
proof
  assume "snd (snd (withSecrets w c cfg)) = Inr ret"
  then obtain doc cr u pw where doc: "json_parse w body = Inr doc"
    and cr: "json_index doc ''data'' = Inr cr"
    and u: "and_then (json_index cr ''username'') get_to_string = Inr u"
    and pw: "and_then (json_index cr ''password'') get_to_string = Inr pw"
    and ret: "ret = cfg\<lparr>username := u, password := pw\<rparr>"
    using assms
    by (auto simp: withSecrets_def Let_def and_then_def split: sum.splits)
  from u pw have members: "json_member cr ''username'' = Some (JString u)"
    "json_member cr ''password'' = Some (JString pw)"
    by (simp_all add: index_string_iff)
  then have "cr \<noteq> JNull"
    by (auto simp: json_member_def)
  with cr have "json_member doc ''data'' = Some cr"
    by (cases doc) (auto simp: json_member_def split: option.splits)
  with doc members ret
  show "\<exists>doc dat u pw. json_parse w body = Inr doc \<and> json_member doc ''data'' = Some dat \<and>
      json_member dat ''username'' = Some (JString u) \<and> json_member dat ''password'' = Some (JString pw) \<and>
      ret = cfg\<lparr>username := u, password := pw\<rparr>"
    by blast
next
  assume "\<exists>doc dat u pw. json_parse w body = Inr doc \<and> json_member doc ''data'' = Some dat \<and>
      json_member dat ''username'' = Some (JString u) \<and> json_member dat ''password'' = Some (JString pw) \<and>
      ret = cfg\<lparr>username := u, password := pw\<rparr>"
  then obtain doc dat u pw where "json_parse w body = Inr doc" "json_member doc ''data'' = Some dat"
    and "and_then (json_index dat ''username'') get_to_string = Inr u"
    and "and_then (json_index dat ''password'') get_to_string = Inr pw"
    and "ret = cfg\<lparr>username := u, password := pw\<rparr>"
    by (auto simp: index_string_iff)
  then show "snd (snd (withSecrets w c cfg)) = Inr ret"
    using assms by (simp add: withSecrets_def Let_def json_index_member)
qed

lemma withSecrets_state:
  "fst (snd (withSecrets w c cfg)) =
     cfg\<lparr>username := username (fst (snd (withSecrets w c cfg))),
         password := password (fst (snd (withSecrets w c cfg)))\<rparr>"
  by (simp add: withSecrets_def Let_def split: option.splits sum.splits)

lemma withSecrets_returns_this:
  "snd (snd (withSecrets w c cfg)) = Inr ret \<Longrightarrow> fst (snd (withSecrets w c cfg)) = ret"
  by (auto simp: withSecrets_def Let_def split: option.splits sum.splits)

lemma withSecrets_username_written:
  assumes "generateCredentials w c (secretRole cfg) = Some body"
    and "json_parse w body = Inr doc" and "json_member doc ''data'' = Some dat"
    and "json_member dat ''username'' = Some (JString u)"
  shows "username (fst (snd (withSecrets w c cfg))) = u \<and>
         (\<not> has_string dat ''password'' \<longrightarrow>
            withSecrets w c cfg =
              ([Generate_credentials (secretRole cfg)], cfg\<lparr>username := u\<rparr>,
               Inl (Json_type_error 302)))"
proof -
  have u: "and_then (json_index dat ''username'') get_to_string = Inr u"
    using assms(4) by (simp add: index_string_iff)
  obtain members where dat: "dat = JObject members"
    using assms(4) by (cases dat) (auto simp: json_member_def)
  have pw: "and_then (json_index dat ''password'') get_to_string = Inl (Json_type_error 302)"
    if "\<not> has_string dat ''password''"
  proof (cases "map_of members ''password''")
    case None
    then show ?thesis by (simp add: dat)
  next
    case (Some v)
    with that dat have "\<forall>s. v \<noteq> JString s"
      by (auto simp: has_string_iff json_member_def)
    with Some show ?thesis by (cases v) (simp_all add: dat)
  qed
  show ?thesis
    using assms(1-3) u pw
    by (auto simp: withSecrets_def Let_def json_index_member split: sum.splits)
qed

section \<open>The scenario, evaluated\<close>

lemma scenario_parse_config: "json_parse scenario config_text = Inr config_json"
  by (simp add: scenario_def scenario_parse_def)

lemma scenario_parse_credentials: "json_parse scenario credentials_text = Inr credentials_json"
  by (simp add: scenario_def scenario_parse_def credentials_text_def config_text_def)

lemma scenario_parse_empty: "json_parse scenario [] = Inl (Json_parse_error 101)"
  by (simp add: scenario_def scenario_parse_def credentials_text_def config_text_def
      boolean_port_text_def float_port_text_def large_port_text_def no_host_text_def
      no_password_text_def)

lemma scenario_parse_boolean_port:
  "json_parse scenario boolean_port_text = Inr boolean_port_json"
  by (simp add: scenario_def scenario_parse_def boolean_port_text_def config_text_def
      credentials_text_def)

lemma scenario_parse_float_port:
  "json_parse scenario float_port_text = Inr float_port_json"
  by (simp add: scenario_def scenario_parse_def float_port_text_def boolean_port_text_def
      config_text_def credentials_text_def)


lemma scenario_parse_no_host:
  "json_parse scenario no_host_text = Inr no_host_json"
  by (simp add: scenario_def scenario_parse_def no_host_text_def large_port_text_def
      float_port_text_def boolean_port_text_def config_text_def credentials_text_def)

lemma scenario_parse_no_password:
  "json_parse scenario no_password_text = Inr no_password_json"
  by (simp add: scenario_def scenario_parse_def no_password_text_def no_host_text_def
      large_port_text_def float_port_text_def boolean_port_text_def config_text_def
      credentials_text_def)

lemma trunc_5432_5: "trunc (10865 / 2) = 5432"
  by (simp add: trunc_def floor_eq_iff)

text \<open>A boolean \<open>port\<close> is converted too: \<^verbatim>\<open>true\<close> is loaded as port 1.\<close>

lemma boolean_port_is_loaded:
  "getDatabaseConfiguration (scenario\<lparr>file_contents := (\<lambda>path. Some boolean_port_text)\<rparr>)
     ''config.json'' =
     ([Read_file ''config.json''],
      Inr \<lparr>port = 1, host = ''db'', database = ''app'', secretRole = ''app-role'',
            username = [], password = []\<rparr>)"
  using scenario_parse_boolean_port
  by (simp add: getDatabaseConfiguration_def)
     (simp add: boolean_port_json_def from_json_def value_initialised_def)

lemma scenario_both_set: "both_set scenario"
  by (simp add: both_set_def scenario_def)

lemma scenario_login_ok: "login_ok scenario"
  by (simp add: login_ok_def scenario_def)

lemma dec_int_5432: "dec_int 5432 = ''5432''"
  by (simp add: dec_int_def digit_def dec_nat.simps)

lemma main_scenario:
  "main scenario =
     ([Getenv ''APPROLE_ROLE_ID'', Getenv ''APPROLE_SECRET_ID'',
       Construct_strategy (Some ''role-1'') (Some ''secret-1''),
       Vault_login \<lparr>vault_host = ''dynamic-secrets-vault'', tls_enabled = False\<rparr>
         \<lparr>roleId = ''role-1'', secretId = ''secret-1''\<rparr>,
       Read_file ''config.json'', Generate_credentials ''app-role'',
       Db_connect ''host=db port=5432 user=u1 password=p1 dbname=app'',
       Print ''Connected''], 0)"
proof -
  have load: "snd (getDatabaseConfiguration scenario ''config.json'') =
      Inr \<lparr>port = 5432, host = ''db'', database = ''app'', secretRole = ''app-role'',
            username = [], password = []\<rparr>"
    using scenario_parse_config
    by (simp add: getDatabaseConfiguration_def)
       (simp add: scenario_def config_json_def from_json_def value_initialised_def int_cast_def)
  have enrich: "snd (snd (withSecrets scenario (client_of scenario)
      \<lparr>port = 5432, host = ''db'', database = ''app'', secretRole = ''app-role'',
         username = [], password = []\<rparr>)) =
      Inr \<lparr>port = 5432, host = ''db'', database = ''app'', secretRole = ''app-role'',
            username = ''u1'', password = ''p1''\<rparr>"
    using scenario_parse_credentials
    by (simp add: withSecrets_def Let_def)
       (simp add: scenario_def credentials_json_def Let_def)
  have s: "fst (connectionString
      \<lparr>port = 5432, host = ''db'', database = ''app'', secretRole = ''app-role'',
         username = ''u1'', password = ''p1''\<rparr>) =
      ''host=db port=5432 user=u1 password=p1 dbname=app''"
    by (simp add: connectionString_def dec_int_5432)
  have "pqxx_connect scenario ''host=db port=5432 user=u1 password=p1 dbname=app'' = Inr True"
    by (simp add: scenario_def)
  then have "try_block scenario ''config.json'' (client_of scenario) =
      ([Read_file ''config.json'', Generate_credentials ''app-role'',
        Db_connect ''host=db port=5432 user=u1 password=p1 dbname=app'',
        Print ''Connected''], Inr ())"
    using try_block_connect [OF load enrich] by (simp add: s)
  from main_completed [OF scenario_both_set scenario_login_ok this]
  show ?thesis
    by (simp add: bootstrap_events_def strategy_of_def value_or_empty_def vault_config_def) (simp add: scenario_def)
qed




section \<open>The statements\<close>




text \<open>
  C2. When the broker's response is absent, \<^verbatim>\<open>withSecrets\<close> returns normally, and both the
  object and the configuration it returns are the configuration it was called on:
  neither \<open>username\<close> nor \<open>password\<close> is touched.
\<close>

theorem withSecrets_absent_response:
  "generateCredentials w vaultClient (secretRole cfg) = None \<Longrightarrow>
   withSecrets w vaultClient cfg = ([Generate_credentials (secretRole cfg)], cfg, Inr cfg)"
  by (simp add: withSecrets_def Let_def)


theorem withSecrets_absent_response_witness:
  "generateCredentials (scenario\<lparr>generateCredentials := (\<lambda>client role. None)\<rparr>)
     (client_of scenario) (secretRole (value_initialised\<lparr>secretRole := ''app-role''\<rparr>)) = None \<and>
   withSecrets (scenario\<lparr>generateCredentials := (\<lambda>client role. None)\<rparr>) (client_of scenario)
     (value_initialised\<lparr>secretRole := ''app-role''\<rparr>) =
     ([Generate_credentials ''app-role''],
      \<lparr>port = 0, host = [], database = [], secretRole = ''app-role'', username = [],
         password = []\<rparr>,
      Inr \<lparr>port = 0, host = [], database = [], secretRole = ''app-role'', username = [],
            password = []\<rparr>)"
  using withSecrets_absent_response
    [of "scenario\<lparr>generateCredentials := (\<lambda>client role. None)\<rparr>" "client_of scenario"
        "value_initialised\<lparr>secretRole := ''app-role''\<rparr>"]
  by (simp add: value_initialised_def)

text \<open>
  C3. With both variables unset the run is: the two reads of the environment, the
  diagnostic on standard output, and \<^verbatim>\<open>exit(-1)\<close>. Nothing else happens: no login, no read
  of the configuration file, no request for credentials, no connection.
\<close>

theorem both_unset_exits_at_gate:
  "getenv w ''APPROLE_ROLE_ID'' = None \<Longrightarrow> getenv w ''APPROLE_SECRET_ID'' = None \<Longrightarrow>
   main w =
     ([Getenv ''APPROLE_ROLE_ID'', Getenv ''APPROLE_SECRET_ID'',
       Print ''APPROLE_ROLE_ID and APPROLE_SECRET_ID environment variables must be set''],
      - 1)"
  by (simp add: main_gate both_unset_def gate_message_def)

theorem both_unset_exits_at_gate_witness:
  "getenv (scenario\<lparr>getenv := (\<lambda>name. None)\<rparr>) ''APPROLE_ROLE_ID'' = None \<and>
   getenv (scenario\<lparr>getenv := (\<lambda>name. None)\<rparr>) ''APPROLE_SECRET_ID'' = None \<and>
   main (scenario\<lparr>getenv := (\<lambda>name. None)\<rparr>) =
     ([Getenv ''APPROLE_ROLE_ID'', Getenv ''APPROLE_SECRET_ID'',
       Print ''APPROLE_ROLE_ID and APPROLE_SECRET_ID environment variables must be set''],
      - 1) \<and>
   snd (main (scenario\<lparr>getenv := (\<lambda>name. None)\<rparr>)) \<noteq> 0"
  using both_unset_exits_at_gate [of "scenario\<lparr>getenv := (\<lambda>name. None)\<rparr>"]
  by simp




text \<open>
  C5. When both variables are set, so that there is a client, and the login fails, the
  run is the bootstrap followed by one line on standard
  output, \<^verbatim>\<open>Unable to authenticate to Vault\<close>, and the exit code is 0: the configuration file
  is not read, no credentials are requested, no connection is attempted.
\<close>

theorem unauthenticated_stops:
  "both_set w \<Longrightarrow> \<not> login_ok w \<Longrightarrow>
   main w =
     ([Getenv ''APPROLE_ROLE_ID'', Getenv ''APPROLE_SECRET_ID'',
       Construct_strategy (getenv w ''APPROLE_ROLE_ID'') (getenv w ''APPROLE_SECRET_ID''),
       Vault_login vault_config (strategy_of w),
       Print ''Unable to authenticate to Vault''], 0)"
  by (simp add: main_unauthenticated bootstrap_events_def)

theorem unauthenticated_stops_witness:
  "both_set (scenario\<lparr>vault_login := (\<lambda>config strategy. False)\<rparr>) \<and>
   \<not> login_ok (scenario\<lparr>vault_login := (\<lambda>config strategy. False)\<rparr>) \<and>
   main (scenario\<lparr>vault_login := (\<lambda>config strategy. False)\<rparr>) =
     ([Getenv ''APPROLE_ROLE_ID'', Getenv ''APPROLE_SECRET_ID'',
       Construct_strategy (Some ''role-1'') (Some ''secret-1''),
       Vault_login \<lparr>vault_host = ''dynamic-secrets-vault'', tls_enabled = False\<rparr>
         \<lparr>roleId = ''role-1'', secretId = ''secret-1''\<rparr>,
       Print ''Unable to authenticate to Vault''], 0)"
  using unauthenticated_stops [of "scenario\<lparr>vault_login := (\<lambda>config strategy. False)\<rparr>"]
  by (simp add: both_set_def login_ok_def strategy_of_def value_or_empty_def vault_config_def)
     (simp add: scenario_def)





text \<open>
  C7, as the program has it. A document whose \<open>database\<close> object gives \<open>port\<close> the
  floating-point number 5432.5 is loaded, with port 5432: the library converts a
  floating-point number (and a boolean) to \<^verbatim>\<open>int\<close> instead of rejecting it.
\<close>

theorem float_port_is_loaded:
  "getDatabaseConfiguration (scenario\<lparr>file_contents := (\<lambda>path. Some float_port_text)\<rparr>)
     ''config.json'' =
     ([Read_file ''config.json''],
      Inr \<lparr>port = 5432, host = ''db'', database = ''app'', secretRole = ''app-role'',
            username = [], password = []\<rparr>)"
  using scenario_parse_float_port
  by (simp add: getDatabaseConfiguration_def)
     (simp add: float_port_json_def from_json_def value_initialised_def trunc_5432_5
        int_cast_def)

text \<open>
  C7, amended. For a parser that rejects the empty text: when the file is missing, or
  its text does not parse, or the document has no \<open>database\<close> object with the four keys, a
  string for each of \<open>host\<close>, \<open>database\<close> and \<open>secret_role\<close> and a number or a boolean for
  \<open>port\<close>, \<^verbatim>\<open>getDatabaseConfiguration\<close> raises; the exception leaves the \<^verbatim>\<open>try\<close> block before
  any credentials are requested, and \<^verbatim>\<open>main\<close> prints its message and ends with exit code
  0. No field is filled with a default: a configuration that is returned has every field
  from the document.
\<close>

theorem bad_config_raises_to_catch:
  assumes "json_parse w [] = Inl e0"
  shows "(bad_config w path \<longrightarrow>
           (\<exists>e. getDatabaseConfiguration w path = ([Read_file path], Inl e) \<and>
                try_block w path c = ([Read_file path], Inl e) \<and>
                (path = ''config.json'' \<and> both_set w \<and> login_ok w \<longrightarrow>
                   main w =
                     (bootstrap_events w @ [Read_file ''config.json'', Print (what w e)], 0)))) \<and>
         (\<forall>cfg. snd (getDatabaseConfiguration w path) = Inr cfg \<longrightarrow>
            (\<exists>doc db v. json_parse w (raw_text w path) = Inr doc \<and>
               json_member doc ''database'' = Some db \<and>
               json_member db ''port'' = Some v \<and> get_to_int v = Inr (port cfg) \<and>
               json_member db ''host'' = Some (JString (host cfg)) \<and>
               json_member db ''database'' = Some (JString (database cfg)) \<and>
               json_member db ''secret_role'' = Some (JString (secretRole cfg))))"
proof (intro conjI impI allI)
  assume bad: "bad_config w path"
  with assms obtain e where e: "snd (getDatabaseConfiguration w path) = Inl e"
    using bad_config_raises by blast
  then have "getDatabaseConfiguration w path = ([Read_file path], Inl e)"
    using fst_getDatabaseConfiguration [of w path] by (simp add: prod_eq_iff)
  moreover have block: "try_block w path c' = ([Read_file path], Inl e)" for c'
    using e by (rule try_block_load_raises)
  moreover have "main w = (bootstrap_events w @ [Read_file ''config.json'', Print (what w e)], 0)"
    if "path = ''config.json''" "both_set w" "login_ok w"
    using main_caught [OF that(2,3)] block [of "client_of w"] that(1) by simp
  ultimately show "\<exists>e. getDatabaseConfiguration w path = ([Read_file path], Inl e) \<and>
      try_block w path c = ([Read_file path], Inl e) \<and>
      (path = ''config.json'' \<and> both_set w \<and> login_ok w \<longrightarrow>
         main w = (bootstrap_events w @ [Read_file ''config.json'', Print (what w e)], 0))"
    by blast
next
  fix cfg
  assume "snd (getDatabaseConfiguration w path) = Inr cfg"
  then obtain doc db where doc: "json_parse w (raw_text w path) = Inr doc"
    and db: "json_member doc ''database'' = Some db"
    and cfg: "from_json db value_initialised = Inr cfg"
    by (auto simp: getDatabaseConfiguration_Inr_iff)
  from cfg obtain v where "json_member db ''port'' = Some v" "get_to_int v = Inr (port cfg)"
    "json_member db ''host'' = Some (JString (host cfg))"
    "json_member db ''database'' = Some (JString (database cfg))"
    "json_member db ''secret_role'' = Some (JString (secretRole cfg))"
    by (auto simp: from_json_iff)
  with doc db show "\<exists>doc db v. json_parse w (raw_text w path) = Inr doc \<and>
      json_member doc ''database'' = Some db \<and>
      json_member db ''port'' = Some v \<and> get_to_int v = Inr (port cfg) \<and>
      json_member db ''host'' = Some (JString (host cfg)) \<and>
      json_member db ''database'' = Some (JString (database cfg)) \<and>
      json_member db ''secret_role'' = Some (JString (secretRole cfg))"
    by blast
qed

theorem bad_config_raises_to_catch_witness:
  "json_parse (scenario\<lparr>file_contents := (\<lambda>path. Some no_host_text)\<rparr>) [] =
     Inl (Json_parse_error 101) \<and>
   bad_config (scenario\<lparr>file_contents := (\<lambda>path. Some no_host_text)\<rparr>) ''config.json'' \<and>
   getDatabaseConfiguration (scenario\<lparr>file_contents := (\<lambda>path. Some no_host_text)\<rparr>)
     ''config.json'' = ([Read_file ''config.json''], Inl (Json_out_of_range 403)) \<and>
   main (scenario\<lparr>file_contents := (\<lambda>path. Some no_host_text)\<rparr>) =
     (bootstrap_events scenario @ [Read_file ''config.json'', Print ''out of range''], 0)"
proof -
  let ?w = "scenario\<lparr>file_contents := (\<lambda>path. Some no_host_text)\<rparr>"
  have empty: "json_parse ?w [] = Inl (Json_parse_error 101)"
    using scenario_parse_empty by simp
  have parse: "json_parse ?w no_host_text = Inr no_host_json"
    using scenario_parse_no_host by simp
  have bad: "bad_config ?w ''config.json''"
    using parse
    by (simp add: bad_config_def raw_text_def)
       (simp add: no_host_json_def json_member_def loadable_def has_string_def)
  have pass: "both_set ?w"
    using scenario_both_set by (simp add: both_set_def)
  have ok: "login_ok ?w"
    using scenario_login_ok by (simp add: login_ok_def strategy_of_def value_or_empty_def)
  have load: "getDatabaseConfiguration ?w ''config.json'' =
      ([Read_file ''config.json''], Inl (Json_out_of_range 403))"
    using parse
    by (simp add: getDatabaseConfiguration_def)
       (simp add: no_host_json_def from_json_def int_cast_def)
  have msg: "what ?w (Json_out_of_range 403) = ''out of range''"
    by (simp add: scenario_def scenario_what_def)
  have events: "bootstrap_events ?w = bootstrap_events scenario"
    by (simp add: bootstrap_events_def strategy_of_def value_or_empty_def)
  from bad_config_raises_to_catch [OF empty, of "''config.json''" "client_of ?w"]
    pass ok load msg events
  show ?thesis
    using empty bad by auto
qed


text \<open>
  C8, as the program has it. In the run of the scenario the Secrets Client Bootstrap
  comes first (its first event is the first event of the run) and the Config Loader
  reads the file only after the login, as the fifth event.
\<close>

theorem config_loader_runs_after_bootstrap:
  "fst (main scenario) =
     [Getenv ''APPROLE_ROLE_ID'', Getenv ''APPROLE_SECRET_ID'',
      Construct_strategy (Some ''role-1'') (Some ''secret-1''),
      Vault_login \<lparr>vault_host = ''dynamic-secrets-vault'', tls_enabled = False\<rparr>
        \<lparr>roleId = ''role-1'', secretId = ''secret-1''\<rparr>,
      Read_file ''config.json'', Generate_credentials ''app-role'',
      Db_connect ''host=db port=5432 user=u1 password=p1 dbname=app'',
      Print ''Connected''] \<and>
   position is_bootstrap (fst (main scenario)) = Some 0 \<and>
   position is_config_load (fst (main scenario)) = Some 4"
  by (simp add: main_scenario is_bootstrap_def is_config_load_def)

text \<open>
  C8, amended. Every run is the events of \<^verbatim>\<open>getVaultClient\<close> (the Secrets Client
  Bootstrap) followed by the rest: the bootstrap does not read the configuration file,
  nothing in the rest belongs to the bootstrap, and the Config Loader runs in the rest,
  once, exactly when both variables were set and the login succeeded.
\<close>

theorem bootstrap_precedes_config_loader:
  "\<exists>rest. fst (main w) = fst (getVaultClient w) @ rest \<and>
          filter is_config_load (fst (getVaultClient w)) = [] \<and>
          filter is_bootstrap rest = [] \<and>
          filter is_config_load rest =
            (if both_set w \<and> login_ok w then [Read_file ''config.json''] else [])"
proof (cases "both_unset w")
  case True
  then have "\<not> both_set w" by (auto simp: both_unset_def both_set_def)
  with True show ?thesis
    by (simp add: main_gate getVaultClient_gate is_config_load_def)
next
  case gate: False
  have boot: "filter is_config_load (bootstrap_events w) = []"
    by (simp add: bootstrap_events_def is_config_load_def)
  show ?thesis
  proof (cases "both_set w")
    case False
    with gate show ?thesis
      by (simp add: main_one_null getVaultClient_one_null is_config_load_def)
  next
    case pass: True
    show ?thesis
    proof (cases "login_ok w")
    case False
    with pass boot show ?thesis
      by (simp add: main_unauthenticated getVaultClient_pass is_bootstrap_def is_config_load_def)
  next
    case ok: True
    have "\<exists>t. fst (main w) = bootstrap_events w @ t \<and> filter is_bootstrap t = [] \<and>
        filter is_config_load t = [Read_file ''config.json'']"
      using try_block_cases [of w "''config.json''" "client_of w"]
    proof cases
      case (load e)
      from main_caught [OF pass ok load] show ?thesis
        by (simp add: is_bootstrap_def is_config_load_def)
    next
      case (enrich r e)
      from main_caught [OF pass ok enrich] show ?thesis
        by (simp add: is_bootstrap_def is_config_load_def)
    next
      case (connect r s e)
      from main_caught [OF pass ok connect] show ?thesis
        by (simp add: is_bootstrap_def is_config_load_def)
    next
      case (answered r s is_open)
      from main_completed [OF pass ok answered] show ?thesis
        by (simp add: is_bootstrap_def is_config_load_def)
    qed
    with pass ok boot show ?thesis
      by (auto simp: getVaultClient_pass)
  qed
  qed
qed

text \<open>
  C9. Whatever \<^verbatim>\<open>withSecrets\<close> does, and also when it throws, the object it leaves differs
  from the one it was called on at most in \<open>username\<close> and \<open>password\<close>: \<open>port\<close>, \<open>host\<close>,
  \<open>database\<close> and \<open>secretRole\<close> are unchanged, and with an absent response nothing is. The
  configuration it returns is that object. \<^verbatim>\<open>connectionString\<close> leaves its object as it
  was, and the string that \<^verbatim>\<open>main\<close> hands to the database is the connection string of the
  configuration that \<^verbatim>\<open>withSecrets\<close> returned: nothing changes it after the enrichment.
\<close>

theorem withSecrets_frame:
  assumes "withSecrets w vaultClient cfg = (t, this, r)"
  shows "port this = port cfg \<and> host this = host cfg \<and> database this = database cfg \<and>
         secretRole this = secretRole cfg \<and>
         this = cfg\<lparr>username := username this, password := password this\<rparr> \<and>
         (generateCredentials w vaultClient (secretRole cfg) = None \<longrightarrow> this = cfg) \<and>
         snd (connectionString this) = this \<and>
         (\<forall>ret. r = Inr ret \<longrightarrow>
            ret = this \<and>
            (\<forall>path. snd (getDatabaseConfiguration w path) = Inr cfg \<longrightarrow>
               take 3 (fst (try_block w path vaultClient)) =
                 [Read_file path, Generate_credentials (secretRole cfg),
                  Db_connect (fst (connectionString ret))]))"
proof -
  have obj: "this = fst (snd (withSecrets w vaultClient cfg))"
    and res: "r = snd (snd (withSecrets w vaultClient cfg))"
    using assms by simp_all
  have frame: "this = cfg\<lparr>username := username this, password := password this\<rparr>"
    unfolding obj by (rule withSecrets_state)
  have fields: "port this = port cfg \<and> host this = host cfg \<and> database this = database cfg \<and>
      secretRole this = secretRole cfg"
  proof -
    have "port this = port (cfg\<lparr>username := username this, password := password this\<rparr>)"
      "host this = host (cfg\<lparr>username := username this, password := password this\<rparr>)"
      "database this = database (cfg\<lparr>username := username this, password := password this\<rparr>)"
      "secretRole this = secretRole (cfg\<lparr>username := username this, password := password this\<rparr>)"
      using frame by simp_all
    then show ?thesis by simp
  qed
  have absent: "this = cfg" if "generateCredentials w vaultClient (secretRole cfg) = None"
    using that assms by (simp add: withSecrets_def Let_def)
  have string: "snd (connectionString this) = this"
    by (simp add: connectionString_def)
  have returned: "ret = this \<and>
      (\<forall>path. snd (getDatabaseConfiguration w path) = Inr cfg \<longrightarrow>
         take 3 (fst (try_block w path vaultClient)) =
           [Read_file path, Generate_credentials (secretRole cfg),
            Db_connect (fst (connectionString ret))])" if "r = Inr ret" for ret
  proof -
    have ret: "snd (snd (withSecrets w vaultClient cfg)) = Inr ret"
      using that res by simp
    then have "ret = this"
      unfolding obj by (simp add: withSecrets_returns_this)
    moreover have "take 3 (fst (try_block w path vaultClient)) =
        [Read_file path, Generate_credentials (secretRole cfg),
         Db_connect (fst (connectionString ret))]"
      if "snd (getDatabaseConfiguration w path) = Inr cfg" for path
      using try_block_connect [OF that ret] by (simp split: sum.splits)
    ultimately show ?thesis by blast
  qed
  from fields frame absent string returned show ?thesis
    by blast
qed


theorem withSecrets_frame_witness:
  "withSecrets scenario (client_of scenario)
     \<lparr>port = 5432, host = ''db'', database = ''app'', secretRole = ''app-role'',
        username = [], password = []\<rparr> =
     ([Generate_credentials ''app-role''],
      \<lparr>port = 5432, host = ''db'', database = ''app'', secretRole = ''app-role'',
         username = ''u1'', password = ''p1''\<rparr>,
      Inr \<lparr>port = 5432, host = ''db'', database = ''app'', secretRole = ''app-role'',
            username = ''u1'', password = ''p1''\<rparr>) \<and>
   snd (connectionString
     \<lparr>port = 5432, host = ''db'', database = ''app'', secretRole = ''app-role'',
        username = ''u1'', password = ''p1''\<rparr>) =
     \<lparr>port = 5432, host = ''db'', database = ''app'', secretRole = ''app-role'',
        username = ''u1'', password = ''p1''\<rparr> \<and>
   take 3 (fst (try_block scenario ''config.json'' (client_of scenario))) =
     [Read_file ''config.json'', Generate_credentials ''app-role'',
      Db_connect ''host=db port=5432 user=u1 password=p1 dbname=app'']"
proof -
  let ?loaded = "\<lparr>port = 5432, host = ''db'', database = ''app'', secretRole = ''app-role'',
      username = [], password = []\<rparr>"
  let ?enriched = "\<lparr>port = 5432, host = ''db'', database = ''app'', secretRole = ''app-role'',
      username = ''u1'', password = ''p1''\<rparr>"
  have run: "withSecrets scenario (client_of scenario) ?loaded =
      ([Generate_credentials ''app-role''], ?enriched, Inr ?enriched)"
    using scenario_parse_credentials
    by (simp add: withSecrets_def Let_def)
       (simp add: scenario_def credentials_json_def Let_def)
  have load: "snd (getDatabaseConfiguration scenario ''config.json'') = Inr ?loaded"
    using scenario_parse_config
    by (simp add: getDatabaseConfiguration_def)
       (simp add: scenario_def config_json_def from_json_def value_initialised_def int_cast_def)
  have s: "fst (connectionString ?enriched) =
      ''host=db port=5432 user=u1 password=p1 dbname=app''"
    by (simp add: connectionString_def dec_int_5432)
  from withSecrets_frame [OF run] load s run show ?thesis
    by simp
qed

text \<open>
  C10. When the broker's response is present and its body does not parse, or the
  document has no \<open>data\<close> object with strings \<open>username\<close> and \<open>password\<close>, \<^verbatim>\<open>withSecrets\<close>
  throws. If the \<open>data\<close> object has a \<open>username\<close> string (so that it is the \<open>password\<close> that is
  missing), the object it leaves has the new \<open>username\<close> and the old \<open>password\<close>; otherwise the object is
  unchanged. In \<^verbatim>\<open>main\<close> the exception leaves the \<^verbatim>\<open>try\<close> block before any connection
  is attempted: its message is printed and the exit code is 0.
\<close>

theorem present_response_raises:
  assumes "generateCredentials w vaultClient (secretRole cfg) = Some body"
    and "case json_parse w body of Inl e \<Rightarrow> True | Inr doc \<Rightarrow> \<not> has_credentials doc"
  shows "\<exists>e. withSecrets w vaultClient cfg =
               ([Generate_credentials (secretRole cfg)],
                fst (snd (withSecrets w vaultClient cfg)), Inl e) \<and>
             (\<forall>doc dat u. json_parse w body = Inr doc \<and> json_member doc ''data'' = Some dat \<and>
                  json_member dat ''username'' = Some (JString u) \<longrightarrow>
                fst (snd (withSecrets w vaultClient cfg)) = cfg\<lparr>username := u\<rparr> \<and>
                e = Json_type_error 302) \<and>
             ((\<forall>doc dat u. json_parse w body = Inr doc \<and> json_member doc ''data'' = Some dat \<longrightarrow>
                  json_member dat ''username'' \<noteq> Some (JString u)) \<longrightarrow>
                fst (snd (withSecrets w vaultClient cfg)) = cfg) \<and>
             (snd (getDatabaseConfiguration w ''config.json'') = Inr cfg \<and>
              vaultClient = client_of w \<and> both_set w \<and> login_ok w \<longrightarrow>
                main w =
                  (bootstrap_events w @
                     [Read_file ''config.json'', Generate_credentials (secretRole cfg),
                      Print (what w e)], 0))"
proof -
  have no_return: "snd (snd (withSecrets w vaultClient cfg)) \<noteq> Inr ret" for ret
  proof
    assume "snd (snd (withSecrets w vaultClient cfg)) = Inr ret"
    then obtain doc dat u pw where "json_parse w body = Inr doc" "json_member doc ''data'' = Some dat"
      "json_member dat ''username'' = Some (JString u)" "json_member dat ''password'' = Some (JString pw)"
      using withSecrets_Inr_iff [OF assms(1)] by blast
    then have "json_parse w body = Inr doc \<and> has_credentials doc"
      by (simp add: has_credentials_def has_string_iff)
    with assms(2) show False by simp
  qed
  then obtain e where e: "snd (snd (withSecrets w vaultClient cfg)) = Inl e"
    by (cases "snd (snd (withSecrets w vaultClient cfg))") auto
  then have run: "withSecrets w vaultClient cfg =
      ([Generate_credentials (secretRole cfg)], fst (snd (withSecrets w vaultClient cfg)), Inl e)"
    using fst_withSecrets [of w vaultClient cfg] by (simp add: prod_eq_iff)
  have partial: "fst (snd (withSecrets w vaultClient cfg)) = cfg\<lparr>username := u\<rparr> \<and>
      e = Json_type_error 302"
    if "json_parse w body = Inr doc \<and> json_member doc ''data'' = Some dat \<and>
        json_member dat ''username'' = Some (JString u)" for doc dat u
  proof -
    from that assms(2) have "\<not> has_string dat ''password''"
      by (auto simp: has_credentials_def has_string_iff)
    with withSecrets_username_written [OF assms(1), of doc dat u] that
    have "withSecrets w vaultClient cfg =
        ([Generate_credentials (secretRole cfg)], cfg\<lparr>username := u\<rparr>, Inl (Json_type_error 302))"
      by simp
    with e show ?thesis by simp
  qed
  have untouched: "fst (snd (withSecrets w vaultClient cfg)) = cfg"
    if none: "\<forall>doc dat u. json_parse w body = Inr doc \<and> json_member doc ''data'' = Some dat \<longrightarrow>
        json_member dat ''username'' \<noteq> Some (JString u)"
  proof (cases "and_then (json_parse w body) (\<lambda>doc. json_index doc ''data'')")
    case (Inl e')
    then show ?thesis using assms(1) by (simp add: withSecrets_def Let_def)
  next
    case (Inr cr)
    then obtain doc where doc: "json_parse w body = Inr doc" and cr: "json_index doc ''data'' = Inr cr"
      by (auto simp: and_then_Inr_iff)
    have "and_then (json_index cr ''username'') get_to_string \<noteq> Inr u" for u
    proof
      assume "and_then (json_index cr ''username'') get_to_string = Inr u"
      then have u: "json_member cr ''username'' = Some (JString u)"
        by (simp add: index_string_iff)
      then have "cr \<noteq> JNull" by (auto simp: json_member_def)
      with cr have "json_member doc ''data'' = Some cr"
        by (cases doc) (auto simp: json_member_def split: option.splits)
      with none doc u show False by blast
    qed
    then obtain e' where "and_then (json_index cr ''username'') get_to_string = Inl e'"
      by (cases "and_then (json_index cr ''username'') get_to_string") auto
    with Inr show ?thesis using assms(1) by (simp add: withSecrets_def Let_def)
  qed
  have caught: "main w =
      (bootstrap_events w @
         [Read_file ''config.json'', Generate_credentials (secretRole cfg), Print (what w e)], 0)"
    if "snd (getDatabaseConfiguration w ''config.json'') = Inr cfg \<and>
        vaultClient = client_of w \<and> both_set w \<and> login_ok w"
  proof -
    from that e have "try_block w ''config.json'' (client_of w) =
        ([Read_file ''config.json'', Generate_credentials (secretRole cfg)], Inl e)"
      using try_block_enrichment_raises [of w "''config.json''" cfg "client_of w" e] by simp
    with that show ?thesis
      using main_caught [of w _ e] by simp
  qed
  from run partial untouched caught show ?thesis
    by blast
qed

theorem present_response_raises_witness:
  "generateCredentials (scenario\<lparr>generateCredentials := (\<lambda>client role. Some no_password_text)\<rparr>)
     (client_of scenario)
     (secretRole \<lparr>port = 5432, host = ''db'', database = ''app'', secretRole = ''app-role'',
        username = [], password = []\<rparr>) = Some no_password_text \<and>
   json_parse (scenario\<lparr>generateCredentials := (\<lambda>client role. Some no_password_text)\<rparr>)
     no_password_text = Inr no_password_json \<and>
   \<not> has_credentials no_password_json \<and>
   withSecrets (scenario\<lparr>generateCredentials := (\<lambda>client role. Some no_password_text)\<rparr>)
     (client_of scenario)
     \<lparr>port = 5432, host = ''db'', database = ''app'', secretRole = ''app-role'',
        username = [], password = []\<rparr> =
     ([Generate_credentials ''app-role''],
      \<lparr>port = 5432, host = ''db'', database = ''app'', secretRole = ''app-role'',
         username = ''u1'', password = []\<rparr>,
      Inl (Json_type_error 302)) \<and>
   main (scenario\<lparr>generateCredentials := (\<lambda>client role. Some no_password_text)\<rparr>) =
     (bootstrap_events scenario @
        [Read_file ''config.json'', Generate_credentials ''app-role'', Print ''type error''], 0)"
proof -
  let ?w = "scenario\<lparr>generateCredentials := (\<lambda>client role. Some no_password_text)\<rparr>"
  let ?loaded = "\<lparr>port = 5432, host = ''db'', database = ''app'', secretRole = ''app-role'',
      username = [], password = []\<rparr>"
  have resp: "generateCredentials ?w (client_of scenario) (secretRole ?loaded) =
      Some no_password_text"
    by simp
  have parse: "json_parse ?w no_password_text = Inr no_password_json"
    using scenario_parse_no_password by simp
  have lacks: "\<not> has_credentials no_password_json"
    by (simp add: has_credentials_def no_password_json_def json_member_def has_string_def)
  have bad: "case json_parse ?w no_password_text of Inl e \<Rightarrow> True
      | Inr doc \<Rightarrow> \<not> has_credentials doc"
    using parse lacks by simp
  have data: "json_member no_password_json ''data'' = Some (JObject [(''username'', JString ''u1'')])"
    "json_member (JObject [(''username'', JString ''u1'')]) ''username'' = Some (JString ''u1'')"
    by (simp_all add: no_password_json_def json_member_def)
  have load: "snd (getDatabaseConfiguration ?w ''config.json'') = Inr ?loaded"
    using scenario_parse_config
    by (simp add: getDatabaseConfiguration_def)
       (simp add: scenario_def config_json_def from_json_def value_initialised_def int_cast_def)
  have pass: "both_set ?w"
    using scenario_both_set by (simp add: both_set_def)
  have ok: "login_ok ?w"
    using scenario_login_ok by (simp add: login_ok_def strategy_of_def value_or_empty_def)
  have client: "client_of ?w = client_of scenario"
    by (simp add: client_of_def login_ok_def strategy_of_def value_or_empty_def)
  have events: "bootstrap_events ?w = bootstrap_events scenario"
    by (simp add: bootstrap_events_def strategy_of_def value_or_empty_def)
  have msg: "what ?w (Json_type_error 302) = ''type error''"
    by (simp add: scenario_def scenario_what_def)
  from present_response_raises [OF resp bad] parse data load pass ok client events msg
  obtain e where "withSecrets ?w (client_of scenario) ?loaded =
      ([Generate_credentials ''app-role''], ?loaded\<lparr>username := ''u1''\<rparr>, Inl e)"
    and "e = Json_type_error 302"
    and "main ?w =
      (bootstrap_events scenario @
         [Read_file ''config.json'', Generate_credentials ''app-role'', Print (what ?w e)], 0)"
    by (auto simp del: One_nat_def)
  with resp parse lacks msg show ?thesis
    by simp
qed

end
